theory Spec2Isabelle
  imports Complex_Main "HOL-Library.Product_Lexorder"
begin

section \<open>Calendar dates\<close>

text \<open>
  The endpoints of \<^verbatim>\<open>main.py\<close> work on \<^verbatim>\<open>datetime.date\<close> values. A date is its
  year, month and day. Python compares two dates as the tuples (year, month, day) and
  subtracts them through their proleptic Gregorian ordinals; both are written out here
  as the library computes them.
\<close>

datatype date = Date (year: nat) (month: nat) (day: nat)

definition ymd :: "date \<Rightarrow> nat \<times> nat \<times> nat" where
  "ymd d = (year d, month d, day d)"

instantiation date :: linorder
begin

definition less_eq_date :: "date \<Rightarrow> date \<Rightarrow> bool" where
  "less_eq_date a b = (ymd a \<le> ymd b)"

definition less_date :: "date \<Rightarrow> date \<Rightarrow> bool" where
  "less_date a b = (ymd a < ymd b)"

instance
proof
  fix x y z :: date
  show "(x < y) = (x \<le> y \<and> \<not> y \<le> x)"
    unfolding less_eq_date_def less_date_def by (rule less_le_not_le)
  show "x \<le> x"
    unfolding less_eq_date_def by simp
  show "x \<le> y \<Longrightarrow> y \<le> z \<Longrightarrow> x \<le> z"
    unfolding less_eq_date_def by (rule order_trans)
  show "x \<le> y \<or> y \<le> x"
    unfolding less_eq_date_def by (rule linear)
  assume "x \<le> y" and "y \<le> x"
  then have "ymd x = ymd y"
    unfolding less_eq_date_def by (rule antisym)
  then show "x = y"
    by (cases x; cases y) (simp add: ymd_def)
qed

end

definition is_leap :: "nat \<Rightarrow> bool" where
  "is_leap y = (y mod 4 = 0 \<and> (y mod 100 \<noteq> 0 \<or> y mod 400 = 0))"

definition days_before_year :: "nat \<Rightarrow> int" where
  "days_before_year y =
     (let p = int y - 1 in p * 365 + p div 4 - p div 100 + p div 400)"

definition days_in_month :: "nat \<Rightarrow> nat \<Rightarrow> nat" where
  "days_in_month y m =
     (if m = 2 \<and> is_leap y then 29
      else [0, 31, 28, 31, 30, 31, 30, 31, 31, 30, 31, 30, 31] ! m)"

definition days_before_month :: "nat \<Rightarrow> nat \<Rightarrow> int" where
  "days_before_month y m =
     [0, 0, 31, 59, 90, 120, 151, 181, 212, 243, 273, 304, 334] ! m
       + (if m > 2 \<and> is_leap y then 1 else 0)"

definition toordinal :: "date \<Rightarrow> int" where
  "toordinal d = days_before_year (year d) + days_before_month (year d) (month d) + int (day d)"

text \<open>\<^verbatim>\<open>(co - ci).days\<close>: the difference of the two ordinals, negative when \<open>co\<close> is
  the earlier date.\<close>

definition days_between :: "date \<Rightarrow> date \<Rightarrow> int" where
  "days_between co ci = toordinal co - toordinal ci"

text \<open>A date the library can hold: year 1 to 9999, month 1 to 12, a day of that month.\<close>

definition valid_date :: "date \<Rightarrow> bool" where
  "valid_date d =
     (1 \<le> year d \<and> year d \<le> 9999 \<and> 1 \<le> month d \<and> month d \<le> 12 \<and>
      1 \<le> day d \<and> day d \<le> days_in_month (year d) (month d))"

subsection \<open>The ISO form at the boundary\<close>

text \<open>
  Dates cross the HTTP boundary and sit in the store as \<^verbatim>\<open>YYYY-MM-DD\<close> strings.
  \<open>isoformat\<close> is \<^verbatim>\<open>date.isoformat()\<close>. \<open>fromisoformat\<close> is
  \<^verbatim>\<open>datetime.fromisoformat(s).date()\<close> on this calendar-date form: ten characters,
  digits around two hyphens, naming a date that exists; \<open>None\<close> is the library's
  \<^verbatim>\<open>ValueError\<close>. The longer forms with a time of day, which the library also reads,
  are not part of the model. \<open>isoformat\<close> pads with zeros to four and two digits, which
  is the library's output on every date it can hold.
\<close>

definition digit_val :: "char \<Rightarrow> nat option" where
  "digit_val c =
     (let n = (of_char c :: nat) in if 48 \<le> n \<and> n \<le> 57 then Some (n - 48) else None)"

fun digits_val :: "nat \<Rightarrow> string \<Rightarrow> nat option" where
  "digits_val acc [] = Some acc"
| "digits_val acc (c # cs) =
     (case digit_val c of None \<Rightarrow> None | Some v \<Rightarrow> digits_val (acc * 10 + v) cs)"

definition fromisoformat :: "string \<Rightarrow> date option" where
  "fromisoformat s =
     (if length s = 10 \<and> s ! 4 = CHR ''-'' \<and> s ! 7 = CHR ''-'' then
        (case (digits_val 0 (take 4 s), digits_val 0 (take 2 (drop 5 s)),
               digits_val 0 (take 2 (drop 8 s))) of
           (Some y, Some m, Some d) \<Rightarrow>
             if valid_date (Date y m d) then Some (Date y m d) else None
         | _ \<Rightarrow> None)
      else None)"

definition digit_char :: "nat \<Rightarrow> char" where
  "digit_char n = ''0123456789'' ! (n mod 10)"

definition pad2 :: "nat \<Rightarrow> string" where
  "pad2 n = [digit_char (n div 10), digit_char n]"

definition pad4 :: "nat \<Rightarrow> string" where
  "pad4 n = [digit_char (n div 1000), digit_char (n div 100), digit_char (n div 10), digit_char n]"

definition isoformat :: "date \<Rightarrow> string" where
  "isoformat d = pad4 (year d) @ ''-'' @ pad2 (month d) @ ''-'' @ pad2 (day d)"

section \<open>Documents and the store\<close>

text \<open>
  The collections hold loosely typed documents; their fields follow \<^verbatim>\<open>schemas.py\<close>.
  The two room fields that \<^verbatim>\<open>main.py\<close> reads with a default
  (\<^verbatim>\<open>room.get("price_per_night", 0)\<close>, \<^verbatim>\<open>room.get("capacity", 1)\<close>) may be absent.
  Python numbers are exact rationals here: the rounding of binary floating point is
  outside the model. An object id is written as its 24 hexadecimal digits in lower
  case, which is what \<^verbatim>\<open>str\<close> gives for it.
\<close>

type_synonym object_id = string

record room_doc =
  room_oid :: object_id
  room_hotel_id :: string
  room_name :: string
  price_per_night :: "rat option"
  capacity :: "int option"
  room_amenities :: "string list"
  room_images :: "string list option"

text \<open>A room as \<^verbatim>\<open>serialize_doc\<close> returns it: \<^verbatim>\<open>_id\<close> popped, \<^verbatim>\<open>id\<close> its string.\<close>

record room_json =
  json_id :: string
  json_hotel_id :: string
  json_name :: string
  json_price_per_night :: "rat option"
  json_capacity :: "int option"
  json_amenities :: "string list"
  json_images :: "string list option"

text \<open>The request model \<^verbatim>\<open>Booking\<close> of \<^verbatim>\<open>schemas.py\<close>.\<close>

record Booking =
  hotel_id :: string
  room_id :: string
  guest_name :: string
  guest_email :: string
  check_in :: date
  check_out :: date
  guests :: int
  total_price :: rat
  status :: string

text \<open>A booking document: \<^verbatim>\<open>model_dump()\<close> of the request with the two dates as ISO
  strings, and, once stored, the identifier the store gave it.\<close>

record booking_fields =
  doc_hotel_id :: string
  doc_room_id :: string
  doc_guest_name :: string
  doc_guest_email :: string
  doc_check_in :: string
  doc_check_out :: string
  doc_guests :: int
  doc_total_price :: rat
  doc_status :: string

record booking_doc = booking_fields +
  doc_oid :: object_id

record AvailabilityQuery =
  q_check_in :: string
  q_check_out :: string
  q_guests :: int

record database =
  rooms :: "room_doc list"
  bookings :: "booking_doc list"

record booking_response =
  booking_id :: string
  resp_total_price :: rat
  resp_status :: string

datatype error = HTTPException nat string | ValueError | InvalidId

text \<open>The \<^verbatim>\<open>HTTPException\<close>s that the two endpoints raise, under the names the
  specification gives them.\<close>

definition StorageUnavailableError :: error where
  "StorageUnavailableError = HTTPException 500 ''Database not configured''"

definition InvalidRangeError :: error where
  "InvalidRangeError = HTTPException 400 ''Check-out must be after check-in''"

definition InvalidDateError :: error where
  "InvalidDateError = HTTPException 400 ''Invalid date format, use YYYY-MM-DD''"

definition NotFoundError :: error where
  "NotFoundError = HTTPException 404 ''Room not found''"

definition ConflictError :: error where
  "ConflictError = HTTPException 400 ''Selected dates overlap with an existing booking''"

text \<open>\<^verbatim>\<open>ObjectId(s)\<close> of the driver: a string of 24 hexadecimal digits, else
  \<^verbatim>\<open>InvalidId\<close>.\<close>

definition hex_lower :: "char \<Rightarrow> char option" where
  "hex_lower c = map_of (zip ''0123456789abcdefABCDEF'' ''0123456789abcdefabcdef'') c"

fun hex_digits :: "string \<Rightarrow> string option" where
  "hex_digits [] = Some []"
| "hex_digits (c # cs) =
     (case hex_lower c of None \<Rightarrow> None
      | Some l \<Rightarrow> (case hex_digits cs of None \<Rightarrow> None | Some ls \<Rightarrow> Some (l # ls)))"

definition ObjectId :: "string \<Rightarrow> object_id option" where
  "ObjectId s = (if length s = 24 then hex_digits s else None)"

definition serialize_doc :: "room_doc \<Rightarrow> room_json" where
  "serialize_doc doc =
     \<lparr>json_id = room_oid doc, json_hotel_id = room_hotel_id doc, json_name = room_name doc,
      json_price_per_night = price_per_night doc, json_capacity = capacity doc,
      json_amenities = room_amenities doc, json_images = room_images doc\<rparr>"

text \<open>Modelled from the spec: \<^verbatim>\<open>create_document\<close> of \<^verbatim>\<open>database.py\<close>, which is not
  among the sources. The spec gives the storage collaborator as
  \<^verbatim>\<open>create(collection, document) -> id\<close>: the document joins the collection under a
  new identifier, which is returned. The identifier is the store's choice and is an
  argument here.\<close>

definition create_document :: "database \<Rightarrow> object_id \<Rightarrow> booking_fields \<Rightarrow> database \<times> string" where
  "create_document d new_id doc =
     (d\<lparr>bookings := bookings d @ [booking_fields.extend doc \<lparr>doc_oid = new_id\<rparr>]\<rparr>, new_id)"

text \<open>\<^verbatim>\<open>db["booking"].find({"room_id": rid})\<close> and \<^verbatim>\<open>db["room"].find({"hotel_id": hid})\<close>.\<close>

definition find_bookings :: "database \<Rightarrow> string \<Rightarrow> booking_doc list" where
  "find_bookings d rid = filter (\<lambda>b. doc_room_id b = rid) (bookings d)"

definition find_rooms :: "database \<Rightarrow> string \<Rightarrow> room_doc list" where
  "find_rooms d hid = filter (\<lambda>r. room_hotel_id r = hid) (rooms d)"

text \<open>\<^verbatim>\<open>db["room"].find_one({"_id": oid})\<close>.\<close>

definition find_room :: "database \<Rightarrow> object_id \<Rightarrow> room_doc option" where
  "find_room d oid = List.find (\<lambda>r. room_oid r = oid) (rooms d)"

section \<open>The overlap check\<close>

text \<open>The test both endpoints apply to the requested range and a stored one:
  \<^verbatim>\<open>not (co <= b_ci or ci >= b_co)\<close>.\<close>

definition overlaps :: "date \<Rightarrow> date \<Rightarrow> date \<Rightarrow> date \<Rightarrow> bool" where
  "overlaps ci co b_ci b_co = (\<not> (co \<le> b_ci \<or> ci \<ge> b_co))"

text \<open>The two dates of a stored booking, read back from their ISO strings; a string
  that does not parse raises \<^verbatim>\<open>ValueError\<close>.\<close>

definition booking_dates :: "booking_doc \<Rightarrow> error + date \<times> date" where
  "booking_dates b =
     (case fromisoformat (doc_check_in b) of
        None \<Rightarrow> Inl ValueError
      | Some b_ci \<Rightarrow>
          (case fromisoformat (doc_check_out b) of
             None \<Rightarrow> Inl ValueError
           | Some b_co \<Rightarrow> Inr (b_ci, b_co)))"

section \<open>The availability endpoint\<close>

text \<open>The inner loop of \<^verbatim>\<open>check_availability\<close>: the flag \<^verbatim>\<open>overlap\<close>, set at the
  first stored booking that overlaps, where the loop breaks.\<close>

fun room_overlap :: "date \<Rightarrow> date \<Rightarrow> booking_doc list \<Rightarrow> error + bool" where
  "room_overlap ci co [] = Inr False"
| "room_overlap ci co (b # bs) =
     (case booking_dates b of
        Inl e \<Rightarrow> Inl e
      | Inr (b_ci, b_co) \<Rightarrow>
          if overlaps ci co b_ci b_co then Inr True else room_overlap ci co bs)"

definition room_capacity :: "room_doc \<Rightarrow> int" where
  "room_capacity room = (case capacity room of None \<Rightarrow> 1 | Some c \<Rightarrow> c)"

text \<open>The outer loop, with \<^verbatim>\<open>available_rooms\<close> as the accumulator.\<close>

fun available_loop ::
  "database \<Rightarrow> date \<Rightarrow> date \<Rightarrow> int \<Rightarrow> room_json list \<Rightarrow> room_doc list \<Rightarrow> error + room_json list" where
  "available_loop d ci co g available_rooms [] = Inr available_rooms"
| "available_loop d ci co g available_rooms (room # rs) =
     (case room_overlap ci co (find_bookings d (room_oid room)) of
        Inl e \<Rightarrow> Inl e
      | Inr overlap \<Rightarrow>
          if \<not> overlap \<and> g \<le> room_capacity room
          then available_loop d ci co g (available_rooms @ [serialize_doc room]) rs
          else available_loop d ci co g available_rooms rs)"

text \<open>\<^verbatim>\<open>check_availability\<close>; the result is the list under the key \<^verbatim>\<open>available\<close>. The
  store is only read.\<close>

definition check_availability ::
  "database option \<Rightarrow> string \<Rightarrow> AvailabilityQuery \<Rightarrow> error + room_json list" where
  "check_availability db hid payload =
     (case db of
        None \<Rightarrow> Inl StorageUnavailableError
      | Some d \<Rightarrow>
          (case fromisoformat (q_check_in payload) of
             None \<Rightarrow> Inl InvalidDateError
           | Some ci \<Rightarrow>
               (case fromisoformat (q_check_out payload) of
                  None \<Rightarrow> Inl InvalidDateError
                | Some co \<Rightarrow>
                    if co \<le> ci then Inl InvalidRangeError
                    else available_loop d ci co (q_guests payload) [] (find_rooms d hid))))"

section \<open>The booking endpoint\<close>

text \<open>The loop of \<^verbatim>\<open>create_booking\<close> over the stored bookings of the room: it raises
  at the first one that overlaps.\<close>

fun check_overlaps :: "date \<Rightarrow> date \<Rightarrow> booking_doc list \<Rightarrow> error + unit" where
  "check_overlaps ci co [] = Inr ()"
| "check_overlaps ci co (b # bs) =
     (case booking_dates b of
        Inl e \<Rightarrow> Inl e
      | Inr (b_ci, b_co) \<Rightarrow>
          if overlaps ci co b_ci b_co then Inl ConflictError else check_overlaps ci co bs)"

definition room_price :: "room_doc \<Rightarrow> rat" where
  "room_price room = (case price_per_night room of None \<Rightarrow> 0 | Some p \<Rightarrow> p)"

text \<open>\<^verbatim>\<open>booking_doc\<close> as \<^verbatim>\<open>create_booking\<close> builds it: the dump of the request, then the
  three keys it overwrites.\<close>

definition make_booking_doc :: "Booking \<Rightarrow> date \<Rightarrow> date \<Rightarrow> rat \<Rightarrow> booking_fields" where
  "make_booking_doc payload ci co tot =
     \<lparr>doc_hotel_id = hotel_id payload, doc_room_id = room_id payload,
      doc_guest_name = guest_name payload, doc_guest_email = guest_email payload,
      doc_check_in = isoformat ci, doc_check_out = isoformat co,
      doc_guests = guests payload, doc_total_price = tot, doc_status = status payload\<rparr>"

text \<open>\<^verbatim>\<open>create_booking\<close>, on the store \<open>db\<close> and with \<open>new_id\<close> the identifier the store
  will give the next document. The request's dates are already dates (the model
  \<^verbatim>\<open>Booking\<close> types them so), so the branch for strings is not taken. The result is
  the response or the error, and the store afterwards.\<close>

definition create_booking ::
  "database option \<Rightarrow> object_id \<Rightarrow> Booking \<Rightarrow> (error + booking_response) \<times> database option" where
  "create_booking db new_id payload =
     (case db of
        None \<Rightarrow> (Inl StorageUnavailableError, db)
      | Some d \<Rightarrow>
          (case ObjectId (room_id payload) of
             None \<Rightarrow> (Inl InvalidId, db)
           | Some oid \<Rightarrow>
               (case find_room d oid of
                  None \<Rightarrow> (Inl NotFoundError, db)
                | Some room \<Rightarrow>
                    (let ci = check_in payload; co = check_out payload in
                     case check_overlaps ci co (find_bookings d (room_id payload)) of
                       Inl e \<Rightarrow> (Inl e, db)
                     | Inr _ \<Rightarrow>
                         (let nights = days_between co ci;
                              tot = of_int nights * room_price room;
                              (d', bid) = create_document d new_id (make_booking_doc payload ci co tot)
                          in (Inr \<lparr>booking_id = bid, resp_total_price = tot,
                                   resp_status = ''confirmed''\<rparr>, Some d'))))))"

section \<open>Properties of a stored booking\<close>

text \<open>A stored booking is readable when both its dates parse, and it conflicts with
  the range from \<open>ci\<close> to \<open>co\<close> when it is readable and the overlap check holds of its
  dates.\<close>

definition readable :: "booking_doc \<Rightarrow> bool" where
  "readable b = (case booking_dates b of Inl _ \<Rightarrow> False | Inr _ \<Rightarrow> True)"

definition conflicts :: "date \<Rightarrow> date \<Rightarrow> booking_doc \<Rightarrow> bool" where
  "conflicts ci co b =
     (case booking_dates b of Inl _ \<Rightarrow> False | Inr (b_ci, b_co) \<Rightarrow> overlaps ci co b_ci b_co)"

section \<open>A sample store\<close>

text \<open>The two rooms of the first hotel of the seed data, a request for the first room,
  a stored stay in it, and stores with no booking and with one stay from 10 to 15
  January 2024.\<close>

definition seaside_room :: room_doc where
  "seaside_room =
     \<lparr>room_oid = ''65a1f0c2e4b0a1b2c3d4e5f6'', room_hotel_id = ''65a1f0c2e4b0a1b2c3d4e5f0'',
      room_name = ''Deluxe Ocean View'', price_per_night = Some 320, capacity = Some 2,
      room_amenities = [''Balcony'', ''King Bed'', ''Mini Bar''], room_images = None\<rparr>"

definition family_suite :: room_doc where
  "family_suite =
     \<lparr>room_oid = ''65a1f0c2e4b0a1b2c3d4e5f5'', room_hotel_id = ''65a1f0c2e4b0a1b2c3d4e5f0'',
      room_name = ''Family Suite'', price_per_night = Some 450, capacity = Some 4,
      room_amenities = [''Two Bedrooms'', ''Kitchenette''], room_images = None\<rparr>"

definition request :: "date \<Rightarrow> date \<Rightarrow> Booking" where
  "request ci co =
     \<lparr>hotel_id = ''65a1f0c2e4b0a1b2c3d4e5f0'', room_id = ''65a1f0c2e4b0a1b2c3d4e5f6'',
      guest_name = ''Ada'', guest_email = ''ada@example.org'', check_in = ci, check_out = co,
      guests = 2, total_price = 1, status = ''confirmed''\<rparr>"

definition stay :: "string \<Rightarrow> string \<Rightarrow> string \<Rightarrow> booking_doc" where
  "stay ci co st =
     \<lparr>doc_hotel_id = ''65a1f0c2e4b0a1b2c3d4e5f0'', doc_room_id = ''65a1f0c2e4b0a1b2c3d4e5f6'',
      doc_guest_name = ''Grace'', doc_guest_email = ''grace@example.org'',
      doc_check_in = ci, doc_check_out = co, doc_guests = 2, doc_total_price = 1600,
      doc_status = st, doc_oid = ''65a1f0c2e4b0a1b2c3d4e5f7''\<rparr>"

definition empty_store :: database where
  "empty_store = \<lparr>rooms = [seaside_room, family_suite], bookings = []\<rparr>"

definition january_store :: "string \<Rightarrow> database" where
  "january_store st =
     \<lparr>rooms = [seaside_room, family_suite],
      bookings = [stay ''2024-01-10'' ''2024-01-15'' st]\<rparr>"

text \<open>The same request for the days from 12 to 20 January 2024, with the room's
  identifier written in upper-case hexadecimal digits.\<close>

definition upper_case_request :: Booking where
  "upper_case_request =
     (request (Date 2024 1 12) (Date 2024 1 20))\<lparr>room_id := ''65A1F0C2E4B0A1B2C3D4E5F6''\<rparr>"

section \<open>The loops\<close>

lemmas date_eval = days_between_def toordinal_def days_before_year_def days_before_month_def
  is_leap_def less_eq_date_def less_date_def ymd_def
lemmas iso_eval = fromisoformat_def digit_val_def valid_date_def days_in_month_def is_leap_def
  isoformat_def pad4_def pad2_def digit_char_def
lemmas store_eval = ObjectId_def hex_lower_def find_room_def find_bookings_def find_rooms_def
  create_document_def make_booking_doc_def room_price_def room_capacity_def booking_dates_def
  overlaps_def serialize_doc_def booking_fields.extend_def readable_def conflicts_def
lemmas example_eval = seaside_room_def family_suite_def request_def upper_case_request_def stay_def empty_store_def january_store_def

lemma booking_dates_error: "booking_dates b = Inl e \<Longrightarrow> e = ValueError"
  by (simp add: booking_dates_def split: option.splits)

lemma check_overlaps_Inr:
  "check_overlaps ci co bs = Inr u \<longleftrightarrow> (\<forall>b\<in>set bs. readable b \<and> \<not> conflicts ci co b)"
  by (induction bs) (auto simp: readable_def conflicts_def split: sum.splits)

lemma check_overlaps_conflict:
  "\<forall>b\<in>set bs. readable b \<Longrightarrow> \<exists>b\<in>set bs. conflicts ci co b \<Longrightarrow>
   check_overlaps ci co bs = Inl ConflictError"
  by (induction bs) (auto simp: readable_def conflicts_def split: sum.splits)

lemma check_overlaps_Inl:
  "check_overlaps ci co bs = Inl e \<Longrightarrow>
   (e = ValueError \<and> (\<exists>b\<in>set bs. \<not> readable b)) \<or>
   (e = ConflictError \<and> (\<exists>b\<in>set bs. conflicts ci co b))"
  by (induction bs)
     (auto simp: readable_def conflicts_def dest: booking_dates_error split: sum.splits if_splits)




lemma ValueError_not_Conflict: "ValueError \<noteq> ConflictError"
  by (simp add: ConflictError_def)






lemma create_booking_Inr:
  assumes "fst (create_booking db nid p) = Inr resp"
  shows "\<exists>d oid room. db = Some d \<and> ObjectId (room_id p) = Some oid \<and> find_room d oid = Some room \<and>
     (\<forall>b\<in>set (find_bookings d (room_id p)). readable b \<and> \<not> conflicts (check_in p) (check_out p) b) \<and>
     create_booking db nid p =
       (Inr \<lparr>booking_id = nid,
             resp_total_price = of_int (days_between (check_out p) (check_in p)) * room_price room,
             resp_status = ''confirmed''\<rparr>,
        Some (d\<lparr>bookings := bookings d @
          [booking_fields.extend
             (make_booking_doc p (check_in p) (check_out p)
                (of_int (days_between (check_out p) (check_in p)) * room_price room))
             \<lparr>doc_oid = nid\<rparr>]\<rparr>))"
proof -
  from assms obtain d where d: "db = Some d"
    by (cases db) (auto simp: create_booking_def)
  from assms d obtain oid where oid: "ObjectId (room_id p) = Some oid"
    by (cases "ObjectId (room_id p)") (auto simp: create_booking_def)
  from assms d oid obtain room where room: "find_room d oid = Some room"
    by (cases "find_room d oid") (auto simp: create_booking_def)
  from assms d oid room obtain u where
    u: "check_overlaps (check_in p) (check_out p) (find_bookings d (room_id p)) = Inr u"
    by (cases "check_overlaps (check_in p) (check_out p) (find_bookings d (room_id p))")
       (auto simp: create_booking_def Let_def)
  from u have "\<forall>b\<in>set (find_bookings d (room_id p)).
      readable b \<and> \<not> conflicts (check_in p) (check_out p) b"
    by (simp only: check_overlaps_Inr)
  moreover have "create_booking db nid p =
       (Inr \<lparr>booking_id = nid,
             resp_total_price = of_int (days_between (check_out p) (check_in p)) * room_price room,
             resp_status = ''confirmed''\<rparr>,
        Some (d\<lparr>bookings := bookings d @
          [booking_fields.extend
             (make_booking_doc p (check_in p) (check_out p)
                (of_int (days_between (check_out p) (check_in p)) * room_price room))
             \<lparr>doc_oid = nid\<rparr>]\<rparr>))"
    using d oid room u by (simp add: create_booking_def Let_def create_document_def)
  ultimately show ?thesis using d oid room by blast
qed

lemma create_booking_Inl:
  "fst (create_booking db nid p) = Inl e \<Longrightarrow> snd (create_booking db nid p) = db"
  by (auto simp: create_booking_def Let_def create_document_def split: option.splits sum.splits)

section \<open>The overlap rule\<close>

text \<open>
  C1. The test that both endpoints apply to a requested range from \<open>a\<close> to \<open>b\<close> and a
  stored range from \<open>c\<close> to \<open>d\<close> is \<open>\<not> (b \<le> c \<or> a \<ge> d)\<close>, which is the same as
  \<open>a < d \<and> c < b\<close>; on a single stored booking the availability loop returns it as its
  flag and the booking loop raises the conflict exactly when it holds.
\<close>

theorem overlaps_half_open:
  "overlaps a b c d = (\<not> (b \<le> c \<or> a \<ge> d)) \<and> overlaps a b c d = (a < d \<and> c < b) \<and>
   (booking_dates x = Inr (c, d) \<longrightarrow>
      room_overlap a b [x] = Inr (a < d \<and> c < b) \<and>
      check_overlaps a b [x] = (if a < d \<and> c < b then Inl ConflictError else Inr ()))"
  by (auto simp: overlaps_def)

theorem overlaps_half_open_witness:
  "booking_dates (stay ''2024-01-10'' ''2024-01-15'' ''confirmed'') = Inr (Date 2024 1 10, Date 2024 1 15) \<and>
   overlaps (Date 2024 1 12) (Date 2024 1 20) (Date 2024 1 10) (Date 2024 1 15) \<and>
   room_overlap (Date 2024 1 12) (Date 2024 1 20) [stay ''2024-01-10'' ''2024-01-15'' ''confirmed''] = Inr True \<and>
   check_overlaps (Date 2024 1 12) (Date 2024 1 20) [stay ''2024-01-10'' ''2024-01-15'' ''confirmed'']
     = Inl ConflictError"
proof -
  have h: "booking_dates (stay ''2024-01-10'' ''2024-01-15'' ''confirmed'')
      = Inr (Date 2024 1 10, Date 2024 1 15)"
    by (simp add: booking_dates_def stay_def iso_eval)
  have lt: "Date 2024 1 12 < Date 2024 1 15 \<and> Date 2024 1 10 < Date 2024 1 20"
    by (simp add: less_date_def ymd_def)
  show ?thesis
    using h lt overlaps_half_open [of "Date 2024 1 12" "Date 2024 1 20" "Date 2024 1 10"
        "Date 2024 1 15" "stay ''2024-01-10'' ''2024-01-15'' ''confirmed''"]
    by (simp add: less_eq_date_def ymd_def)
qed

text \<open>
  C6. The overlap check is symmetric in the two ranges.
\<close>

theorem overlaps_symmetric: "overlaps a b c d = overlaps c d a b"
  by (auto simp: overlaps_def)

text \<open>
  C7. Back-to-back stays do not conflict: for dates \<open>d1 < d2 < d3\<close> the ranges from
  \<open>d1\<close> to \<open>d2\<close> and from \<open>d2\<close> to \<open>d3\<close> do not overlap, in either order, and a
  request from \<open>d2\<close> to \<open>d3\<close> for a room whose only stored booking runs from \<open>d1\<close> to
  \<open>d2\<close> succeeds. With a stored stay from 2024-01-10 to 2024-01-15, the request from
  2024-01-15 to 2024-01-18 succeeds and the request from 2024-01-12 to 2024-01-20 fails
  with the conflict error, the store unchanged.
\<close>

theorem back_to_back_stays_do_not_conflict:
  "(d1 < d2 \<and> d2 < d3 \<longrightarrow> \<not> overlaps d1 d2 d2 d3 \<and> \<not> overlaps d2 d3 d1 d2) \<and>
   (d1 < d2 \<and> d2 < d3 \<and> db = Some d \<and> ObjectId (room_id p) = Some oid \<and>
    find_room d oid = Some room \<and> find_bookings d (room_id p) = [b] \<and>
    booking_dates b = Inr (d1, d2) \<and> check_in p = d2 \<and> check_out p = d3
    \<longrightarrow> (\<exists>resp d'. create_booking db new_id p = (Inr resp, Some d'))) \<and>
   fst (create_booking (Some (january_store ''confirmed'')) ''65a1f0c2e4b0a1b2c3d4e5f8''
          (request (Date 2024 1 15) (Date 2024 1 18)))
     = Inr \<lparr>booking_id = ''65a1f0c2e4b0a1b2c3d4e5f8'', resp_total_price = 960,
            resp_status = ''confirmed''\<rparr> \<and>
   create_booking (Some (january_store ''confirmed'')) ''65a1f0c2e4b0a1b2c3d4e5f8''
          (request (Date 2024 1 12) (Date 2024 1 20))
     = (Inl ConflictError, Some (january_store ''confirmed''))"
proof (intro conjI impI)
  assume "d1 < d2 \<and> d2 < d3"
  then show "\<not> overlaps d1 d2 d2 d3" "\<not> overlaps d2 d3 d1 d2"
    by (simp_all add: overlaps_def)
next
  assume a: "d1 < d2 \<and> d2 < d3 \<and> db = Some d \<and> ObjectId (room_id p) = Some oid \<and>
    find_room d oid = Some room \<and> find_bookings d (room_id p) = [b] \<and>
    booking_dates b = Inr (d1, d2) \<and> check_in p = d2 \<and> check_out p = d3"
  then have "check_overlaps (check_in p) (check_out p) (find_bookings d (room_id p)) = Inr ()"
    by (simp add: overlaps_def)
  with a show "\<exists>resp d'. create_booking db new_id p = (Inr resp, Some d')"
    by (simp add: create_booking_def Let_def create_document_def)
next
  show "fst (create_booking (Some (january_store ''confirmed'')) ''65a1f0c2e4b0a1b2c3d4e5f8''
          (request (Date 2024 1 15) (Date 2024 1 18)))
     = Inr \<lparr>booking_id = ''65a1f0c2e4b0a1b2c3d4e5f8'', resp_total_price = 960,
            resp_status = ''confirmed''\<rparr>"
    by (simp add: create_booking_def example_eval store_eval date_eval iso_eval)
next
  show "create_booking (Some (january_store ''confirmed'')) ''65a1f0c2e4b0a1b2c3d4e5f8''
          (request (Date 2024 1 12) (Date 2024 1 20))
     = (Inl ConflictError, Some (january_store ''confirmed''))"
    by (simp add: create_booking_def example_eval store_eval date_eval iso_eval)
qed

theorem back_to_back_stays_do_not_conflict_witness:
  "Date 2024 1 10 < Date 2024 1 15 \<and> Date 2024 1 15 < Date 2024 1 18 \<and>
   find_bookings (january_store ''confirmed'') ''65a1f0c2e4b0a1b2c3d4e5f6''
     = [stay ''2024-01-10'' ''2024-01-15'' ''confirmed''] \<and>
   booking_dates (stay ''2024-01-10'' ''2024-01-15'' ''confirmed'')
     = Inr (Date 2024 1 10, Date 2024 1 15) \<and>
   \<not> overlaps (Date 2024 1 15) (Date 2024 1 18) (Date 2024 1 10) (Date 2024 1 15) \<and>
   (\<exists>resp d'. create_booking (Some (january_store ''confirmed'')) ''65a1f0c2e4b0a1b2c3d4e5f8''
       (request (Date 2024 1 15) (Date 2024 1 18)) = (Inr resp, Some d'))"
proof -
  let ?d = "january_store ''confirmed''"
  let ?p = "request (Date 2024 1 15) (Date 2024 1 18)"
  let ?b = "stay ''2024-01-10'' ''2024-01-15'' ''confirmed''"
  have lt: "Date 2024 1 10 < Date 2024 1 15 \<and> Date 2024 1 15 < Date 2024 1 18"
    by (simp add: less_date_def ymd_def)
  have o: "ObjectId (room_id ?p) = Some ''65a1f0c2e4b0a1b2c3d4e5f6''"
    by (simp add: request_def ObjectId_def hex_lower_def)
  have r: "find_room ?d ''65a1f0c2e4b0a1b2c3d4e5f6'' = Some seaside_room"
    by (simp add: example_eval find_room_def)
  have bs: "find_bookings ?d (room_id ?p) = [?b]"
    by (simp add: example_eval find_bookings_def)
  have bd: "booking_dates ?b = Inr (Date 2024 1 10, Date 2024 1 15)"
    by (simp add: booking_dates_def stay_def iso_eval)
  have io: "check_in ?p = Date 2024 1 15 \<and> check_out ?p = Date 2024 1 18"
    by (simp add: request_def)
  note t = back_to_back_stays_do_not_conflict [of "Date 2024 1 10" "Date 2024 1 15"
      "Date 2024 1 18" "Some ?d" ?d ?p "''65a1f0c2e4b0a1b2c3d4e5f6''" seaside_room ?b
      "''65a1f0c2e4b0a1b2c3d4e5f8''"]
  from t lt have "\<not> overlaps (Date 2024 1 15) (Date 2024 1 18) (Date 2024 1 10) (Date 2024 1 15)"
    by blast
  moreover from t lt o r bs bd io
  have "\<exists>resp d'. create_booking (Some ?d) ''65a1f0c2e4b0a1b2c3d4e5f8'' ?p = (Inr resp, Some d')"
    by blast
  ultimately show ?thesis using lt bs bd by (simp add: request_def)
qed

section \<open>The booking endpoint: rejections\<close>

text \<open>
  C2. A request whose check-out is not after its check-in should be rejected with the
  range error and leave no booking. \<^verbatim>\<open>create_booking\<close> has no such test: on a store
  with the room and no booking, the zero-night request from 2024-01-10 to 2024-01-10 is
  answered with a confirmation at price 0 and its document is stored, and the request
  from 2024-02-04 back to 2024-02-01 likewise at price -960. \<^verbatim>\<open>check_availability\<close>
  rejects the same zero-night range.
\<close>

theorem zero_night_booking_accepted:
  "create_booking (Some empty_store) ''65a1f0c2e4b0a1b2c3d4e5f8''
     (request (Date 2024 1 10) (Date 2024 1 10)) =
   (Inr \<lparr>booking_id = ''65a1f0c2e4b0a1b2c3d4e5f8'', resp_total_price = 0,
         resp_status = ''confirmed''\<rparr>,
    Some (empty_store\<lparr>bookings :=
          [\<lparr>doc_hotel_id = ''65a1f0c2e4b0a1b2c3d4e5f0'',
            doc_room_id = ''65a1f0c2e4b0a1b2c3d4e5f6'', doc_guest_name = ''Ada'',
            doc_guest_email = ''ada@example.org'', doc_check_in = ''2024-01-10'',
            doc_check_out = ''2024-01-10'', doc_guests = 2, doc_total_price = 0,
            doc_status = ''confirmed'', doc_oid = ''65a1f0c2e4b0a1b2c3d4e5f8''\<rparr>]\<rparr>)) \<and>
   create_booking (Some empty_store) ''65a1f0c2e4b0a1b2c3d4e5f8''
     (request (Date 2024 2 4) (Date 2024 2 1)) =
   (Inr \<lparr>booking_id = ''65a1f0c2e4b0a1b2c3d4e5f8'', resp_total_price = - 960,
         resp_status = ''confirmed''\<rparr>,
    Some (empty_store\<lparr>bookings :=
          [\<lparr>doc_hotel_id = ''65a1f0c2e4b0a1b2c3d4e5f0'',
            doc_room_id = ''65a1f0c2e4b0a1b2c3d4e5f6'', doc_guest_name = ''Ada'',
            doc_guest_email = ''ada@example.org'', doc_check_in = ''2024-02-04'',
            doc_check_out = ''2024-02-01'', doc_guests = 2, doc_total_price = - 960,
            doc_status = ''confirmed'', doc_oid = ''65a1f0c2e4b0a1b2c3d4e5f8''\<rparr>]\<rparr>)) \<and>
   check_availability (Some empty_store) ''65a1f0c2e4b0a1b2c3d4e5f0''
     \<lparr>q_check_in = ''2024-01-10'', q_check_out = ''2024-01-10'', q_guests = 2\<rparr> =
   Inl InvalidRangeError"
  by (simp add: create_booking_def check_availability_def example_eval store_eval date_eval iso_eval)

text \<open>
  What the loop of \<^verbatim>\<open>create_booking\<close> does give. The stored bookings it scans are
  those whose \<^verbatim>\<open>room_id\<close> is the string of the request: when they are readable and
  one of them overlaps the requested range the request fails with the conflict error,
  the conflict error has no other cause, and whatever the error the store is as before.
\<close>

lemma conflict_among_bookings_of_requested_id:
  "(db = Some d \<and> ObjectId (room_id p) = Some oid \<and> find_room d oid = Some room \<and>
    (\<forall>b\<in>set (find_bookings d (room_id p)). readable b) \<and>
    (\<exists>b\<in>set (find_bookings d (room_id p)). conflicts (check_in p) (check_out p) b)
    \<longrightarrow> create_booking db new_id p = (Inl ConflictError, db)) \<and>
   (fst (create_booking db new_id p) = Inl ConflictError
    \<longrightarrow> (\<exists>d'. db = Some d' \<and>
          (\<exists>b\<in>set (find_bookings d' (room_id p)). conflicts (check_in p) (check_out p) b))) \<and>
   (fst (create_booking db new_id p) = Inl e \<longrightarrow> snd (create_booking db new_id p) = db)"
proof (intro conjI impI)
  assume a: "db = Some d \<and> ObjectId (room_id p) = Some oid \<and> find_room d oid = Some room \<and>
    (\<forall>b\<in>set (find_bookings d (room_id p)). readable b) \<and>
    (\<exists>b\<in>set (find_bookings d (room_id p)). conflicts (check_in p) (check_out p) b)"
  then have "check_overlaps (check_in p) (check_out p) (find_bookings d (room_id p)) = Inl ConflictError"
    by (intro check_overlaps_conflict) auto
  with a show "create_booking db new_id p = (Inl ConflictError, db)"
    by (simp add: create_booking_def)
next
  assume c: "fst (create_booking db new_id p) = Inl ConflictError"
  then obtain d' where d': "db = Some d'"
    by (cases db) (auto simp: create_booking_def ConflictError_def StorageUnavailableError_def)
  from c d' obtain oid' where o: "ObjectId (room_id p) = Some oid'"
    by (cases "ObjectId (room_id p)") (auto simp: create_booking_def ConflictError_def)
  from c d' o obtain room' where r: "find_room d' oid' = Some room'"
    by (cases "find_room d' oid'") (auto simp: create_booking_def ConflictError_def NotFoundError_def)
  from c d' o r
  have "check_overlaps (check_in p) (check_out p) (find_bookings d' (room_id p)) = Inl ConflictError"
    by (auto simp: create_booking_def Let_def create_document_def split: sum.splits)
  from check_overlaps_Inl [OF this] ValueError_not_Conflict
  have "\<exists>b\<in>set (find_bookings d' (room_id p)). conflicts (check_in p) (check_out p) b"
    by auto
  with d' show "\<exists>d'. db = Some d' \<and>
          (\<exists>b\<in>set (find_bookings d' (room_id p)). conflicts (check_in p) (check_out p) b)"
    by blast
next
  assume "fst (create_booking db new_id p) = Inl e"
  then show "snd (create_booking db new_id p) = db"
    by (rule create_booking_Inl)
qed

text \<open>
  C4. A request whose range overlaps a stored booking of the same room should fail with
  the conflict error and store nothing. \<^verbatim>\<open>create_booking\<close> finds the room through
  \<^verbatim>\<open>ObjectId(payload.room_id)\<close>, which reads upper-case digits as their lower-case
  ones, but looks the room's bookings up by the string \<^verbatim>\<open>payload.room_id\<close> as sent. With
  the room's identifier in upper case, the room is found, its stored stay from
  2024-01-10 to 2024-01-15 overlaps the requested 2024-01-12 to 2024-01-20, yet no
  booking is scanned: the request is confirmed at price 2560 and stored beside the stay
  it overlaps. \<^verbatim>\<open>check_availability\<close> looks the bookings up by \<^verbatim>\<open>str(room["_id"])\<close> and
  keeps that room out of the result for the same range.
\<close>

theorem upper_case_room_id_double_books:
  "ObjectId (room_id upper_case_request) = Some (room_oid seaside_room) \<and>
   find_room (january_store ''confirmed'') (room_oid seaside_room) = Some seaside_room \<and>
   doc_room_id (stay ''2024-01-10'' ''2024-01-15'' ''confirmed'') = room_oid seaside_room \<and>
   conflicts (check_in upper_case_request) (check_out upper_case_request)
     (stay ''2024-01-10'' ''2024-01-15'' ''confirmed'') \<and>
   find_bookings (january_store ''confirmed'') (room_id upper_case_request) = [] \<and>
   create_booking (Some (january_store ''confirmed'')) ''65a1f0c2e4b0a1b2c3d4e5f8''
       upper_case_request =
     (Inr \<lparr>booking_id = ''65a1f0c2e4b0a1b2c3d4e5f8'', resp_total_price = 2560,
           resp_status = ''confirmed''\<rparr>,
      Some ((january_store ''confirmed'')\<lparr>bookings :=
        [stay ''2024-01-10'' ''2024-01-15'' ''confirmed'',
         \<lparr>doc_hotel_id = ''65a1f0c2e4b0a1b2c3d4e5f0'',
          doc_room_id = ''65A1F0C2E4B0A1B2C3D4E5F6'', doc_guest_name = ''Ada'',
          doc_guest_email = ''ada@example.org'', doc_check_in = ''2024-01-12'',
          doc_check_out = ''2024-01-20'', doc_guests = 2, doc_total_price = 2560,
          doc_status = ''confirmed'', doc_oid = ''65a1f0c2e4b0a1b2c3d4e5f8''\<rparr>]\<rparr>)) \<and>
   check_availability (Some (january_store ''confirmed'')) ''65a1f0c2e4b0a1b2c3d4e5f0''
       \<lparr>q_check_in = ''2024-01-12'', q_check_out = ''2024-01-20'', q_guests = 2\<rparr>
     = Inr [serialize_doc family_suite]"
  by (simp add: upper_case_request_def create_booking_def check_availability_def
      example_eval store_eval date_eval iso_eval)

section \<open>The booking endpoint: price and stored document\<close>

text \<open>
  C3. The total price of every successful booking is the number of days from check-in
  to check-out times the room's nightly rate (\<^verbatim>\<open>room.get("price_per_night", 0)\<close>). The
  witness is the spec's example: rate 320, 2024-02-01 to 2024-02-04, total 960.
\<close>

theorem total_price_is_nights_times_rate:
  "fst (create_booking db new_id p) = Inr resp \<longrightarrow>
   (\<exists>d oid room. db = Some d \<and> ObjectId (room_id p) = Some oid \<and> find_room d oid = Some room \<and>
      resp_total_price resp = of_int (days_between (check_out p) (check_in p)) * room_price room \<and>
      (\<forall>rate. price_per_night room = Some rate \<longrightarrow>
         resp_total_price resp = of_int (days_between (check_out p) (check_in p)) * rate))"
proof
  assume "fst (create_booking db new_id p) = Inr resp"
  from create_booking_Inr [OF this] obtain d oid room where
    f: "db = Some d" "ObjectId (room_id p) = Some oid" "find_room d oid = Some room" and
    r: "create_booking db new_id p =
       (Inr \<lparr>booking_id = new_id,
             resp_total_price = of_int (days_between (check_out p) (check_in p)) * room_price room,
             resp_status = ''confirmed''\<rparr>,
        Some (d\<lparr>bookings := bookings d @
          [booking_fields.extend
             (make_booking_doc p (check_in p) (check_out p)
                (of_int (days_between (check_out p) (check_in p)) * room_price room))
             \<lparr>doc_oid = new_id\<rparr>]\<rparr>))"
    by blast
  from r \<open>fst (create_booking db new_id p) = Inr resp\<close>
  have "resp_total_price resp = of_int (days_between (check_out p) (check_in p)) * room_price room"
    by auto
  then show "\<exists>d oid room. db = Some d \<and> ObjectId (room_id p) = Some oid \<and> find_room d oid = Some room \<and>
      resp_total_price resp = of_int (days_between (check_out p) (check_in p)) * room_price room \<and>
      (\<forall>rate. price_per_night room = Some rate \<longrightarrow>
         resp_total_price resp = of_int (days_between (check_out p) (check_in p)) * rate)"
    using f by (auto simp: room_price_def)
qed

theorem total_price_is_nights_times_rate_witness:
  "fst (create_booking (Some empty_store) ''65a1f0c2e4b0a1b2c3d4e5f8''
         (request (Date 2024 2 1) (Date 2024 2 4))) =
     Inr \<lparr>booking_id = ''65a1f0c2e4b0a1b2c3d4e5f8'', resp_total_price = 960,
          resp_status = ''confirmed''\<rparr> \<and>
   price_per_night seaside_room = Some 320 \<and>
   days_between (Date 2024 2 4) (Date 2024 2 1) = 3 \<and>
   (\<exists>d oid room. Some empty_store = Some d \<and>
      ObjectId (room_id (request (Date 2024 2 1) (Date 2024 2 4))) = Some oid \<and>
      find_room d oid = Some room \<and> room_price room = 320 \<and>
      (960::rat) = of_int (days_between (Date 2024 2 4) (Date 2024 2 1)) * room_price room)"
proof -
  have h: "fst (create_booking (Some empty_store) ''65a1f0c2e4b0a1b2c3d4e5f8''
         (request (Date 2024 2 1) (Date 2024 2 4))) =
     Inr \<lparr>booking_id = ''65a1f0c2e4b0a1b2c3d4e5f8'', resp_total_price = 960,
          resp_status = ''confirmed''\<rparr>"
    by (simp add: create_booking_def example_eval store_eval date_eval iso_eval)
  have n: "days_between (Date 2024 2 4) (Date 2024 2 1) = 3"
    by (simp add: date_eval)
  have fr: "find_room empty_store ''65a1f0c2e4b0a1b2c3d4e5f6'' = Some seaside_room"
    by (simp add: example_eval find_room_def)
  have oi: "ObjectId (room_id (request (Date 2024 2 1) (Date 2024 2 4))) = Some ''65a1f0c2e4b0a1b2c3d4e5f6''"
    by (simp add: example_eval ObjectId_def hex_lower_def)
  have pr: "price_per_night seaside_room = Some 320"
    by (simp add: seaside_room_def)
  from total_price_is_nights_times_rate [of "Some empty_store" "''65a1f0c2e4b0a1b2c3d4e5f8''"
      "request (Date 2024 2 1) (Date 2024 2 4)"
      "\<lparr>booking_id = ''65a1f0c2e4b0a1b2c3d4e5f8'', resp_total_price = 960, resp_status = ''confirmed''\<rparr>"] h
  obtain d oid room where
    "Some empty_store = Some d" "ObjectId (room_id (request (Date 2024 2 1) (Date 2024 2 4))) = Some oid"
    "find_room d oid = Some room"
    "(960::rat) = of_int (days_between (check_out (request (Date 2024 2 1) (Date 2024 2 4)))
        (check_in (request (Date 2024 2 1) (Date 2024 2 4)))) * room_price room"
    by auto
  then show ?thesis using h n fr oi pr
    by (auto simp: request_def room_price_def)
qed

text \<open>
  C8. The stored document of a successful booking should have status "confirmed"
  whatever status the request carried. \<^verbatim>\<open>create_booking\<close> stores the dump of the
  request and overwrites only the two dates and the price: a request with status
  "cancelled" is stored as cancelled, while the response says "confirmed".
\<close>

theorem stored_status_is_the_requested_one:
  "create_booking (Some empty_store) ''65a1f0c2e4b0a1b2c3d4e5f8''
     ((request (Date 2024 2 1) (Date 2024 2 4))\<lparr>status := ''cancelled''\<rparr>) =
   (Inr \<lparr>booking_id = ''65a1f0c2e4b0a1b2c3d4e5f8'', resp_total_price = 960,
         resp_status = ''confirmed''\<rparr>,
    Some (empty_store\<lparr>bookings :=
          [\<lparr>doc_hotel_id = ''65a1f0c2e4b0a1b2c3d4e5f0'',
            doc_room_id = ''65a1f0c2e4b0a1b2c3d4e5f6'', doc_guest_name = ''Ada'',
            doc_guest_email = ''ada@example.org'', doc_check_in = ''2024-02-01'',
            doc_check_out = ''2024-02-04'', doc_guests = 2, doc_total_price = 960,
            doc_status = ''cancelled'', doc_oid = ''65a1f0c2e4b0a1b2c3d4e5f8''\<rparr>]\<rparr>))"
  by (simp add: create_booking_def example_eval store_eval date_eval iso_eval)

text \<open>
  C9. In every successful booking the stored total price is the derived one, days times
  nightly rate, and it is the price returned. The total price that the request carried
  has no influence: changing it changes neither the response nor the store.
\<close>

theorem stored_price_is_derived:
  "(fst (create_booking db new_id p) = Inr resp \<longrightarrow>
    (\<exists>d oid room doc. db = Some d \<and> ObjectId (room_id p) = Some oid \<and>
       find_room d oid = Some room \<and>
       snd (create_booking db new_id p) = Some (d\<lparr>bookings := bookings d @ [doc]\<rparr>) \<and>
       doc_total_price doc = of_int (days_between (check_out p) (check_in p)) * room_price room \<and>
       resp_total_price resp = doc_total_price doc)) \<and>
   create_booking db new_id (p\<lparr>total_price := x\<rparr>) = create_booking db new_id p"
proof (intro conjI impI)
  assume a: "fst (create_booking db new_id p) = Inr resp"
  from create_booking_Inr [OF a] obtain d oid room where
    f: "db = Some d" "ObjectId (room_id p) = Some oid" "find_room d oid = Some room" and
    r: "create_booking db new_id p =
       (Inr \<lparr>booking_id = new_id,
             resp_total_price = of_int (days_between (check_out p) (check_in p)) * room_price room,
             resp_status = ''confirmed''\<rparr>,
        Some (d\<lparr>bookings := bookings d @
          [booking_fields.extend
             (make_booking_doc p (check_in p) (check_out p)
                (of_int (days_between (check_out p) (check_in p)) * room_price room))
             \<lparr>doc_oid = new_id\<rparr>]\<rparr>))"
    by blast
  let ?doc = "booking_fields.extend
             (make_booking_doc p (check_in p) (check_out p)
                (of_int (days_between (check_out p) (check_in p)) * room_price room))
             \<lparr>doc_oid = new_id\<rparr>"
  have "snd (create_booking db new_id p) = Some (d\<lparr>bookings := bookings d @ [?doc]\<rparr>)"
    using r by simp
  moreover have "doc_total_price ?doc
      = of_int (days_between (check_out p) (check_in p)) * room_price room"
    by (simp add: make_booking_doc_def booking_fields.extend_def)
  moreover have "resp_total_price resp = doc_total_price ?doc"
    using r a by (auto simp: make_booking_doc_def booking_fields.extend_def)
  ultimately show "\<exists>d oid room doc. db = Some d \<and> ObjectId (room_id p) = Some oid \<and>
       find_room d oid = Some room \<and>
       snd (create_booking db new_id p) = Some (d\<lparr>bookings := bookings d @ [doc]\<rparr>) \<and>
       doc_total_price doc = of_int (days_between (check_out p) (check_in p)) * room_price room \<and>
       resp_total_price resp = doc_total_price doc"
    using f by blast
next
  have "make_booking_doc (p\<lparr>total_price := x\<rparr>) ci co t = make_booking_doc p ci co t" for ci co t
    by (simp add: make_booking_doc_def)
  then show "create_booking db new_id (p\<lparr>total_price := x\<rparr>) = create_booking db new_id p"
    by (simp add: create_booking_def Let_def split: option.splits sum.splits)
qed

theorem stored_price_is_derived_witness:
  "fst (create_booking (Some empty_store) ''65a1f0c2e4b0a1b2c3d4e5f8''
         (request (Date 2024 2 1) (Date 2024 2 4))) =
     Inr \<lparr>booking_id = ''65a1f0c2e4b0a1b2c3d4e5f8'', resp_total_price = 960,
          resp_status = ''confirmed''\<rparr> \<and>
   total_price (request (Date 2024 2 1) (Date 2024 2 4)) = 1 \<and>
   (\<exists>doc. snd (create_booking (Some empty_store) ''65a1f0c2e4b0a1b2c3d4e5f8''
                 (request (Date 2024 2 1) (Date 2024 2 4)))
           = Some (empty_store\<lparr>bookings := bookings empty_store @ [doc]\<rparr>) \<and>
          doc_total_price doc = 960) \<and>
   create_booking (Some empty_store) ''65a1f0c2e4b0a1b2c3d4e5f8''
       ((request (Date 2024 2 1) (Date 2024 2 4))\<lparr>total_price := 5000\<rparr>)
     = create_booking (Some empty_store) ''65a1f0c2e4b0a1b2c3d4e5f8''
         (request (Date 2024 2 1) (Date 2024 2 4))"
proof -
  let ?p = "request (Date 2024 2 1) (Date 2024 2 4)"
  let ?r = "\<lparr>booking_id = ''65a1f0c2e4b0a1b2c3d4e5f8'', resp_total_price = 960,
          resp_status = ''confirmed''\<rparr>"
  have h: "fst (create_booking (Some empty_store) ''65a1f0c2e4b0a1b2c3d4e5f8'' ?p) = Inr ?r"
    by (simp add: create_booking_def example_eval store_eval date_eval iso_eval)
  have c: "total_price ?p = 1"
    by (simp add: request_def)
  note t = stored_price_is_derived [of "Some empty_store" "''65a1f0c2e4b0a1b2c3d4e5f8''" ?p ?r 5000]
  from t h obtain d doc where
    "Some empty_store = Some d"
    "snd (create_booking (Some empty_store) ''65a1f0c2e4b0a1b2c3d4e5f8'' ?p)
       = Some (d\<lparr>bookings := bookings d @ [doc]\<rparr>)"
    "resp_total_price ?r = doc_total_price doc"
    by blast
  then have "\<exists>doc. snd (create_booking (Some empty_store) ''65a1f0c2e4b0a1b2c3d4e5f8'' ?p)
           = Some (empty_store\<lparr>bookings := bookings empty_store @ [doc]\<rparr>) \<and>
          doc_total_price doc = 960"
    by auto
  with h c t show ?thesis by blast
qed

section \<open>The availability endpoint: which rooms are returned\<close>





end
